theory Spec2Isabelle
  imports Complex_Main "HOL-Library.Word"
begin

section \<open>The notebook \<open>03_BuildModel.ipynb\<close> as a state-and-error-passing program\<close>

text \<open>
  The notebook is a straight sequence of calls into NumPy, Keras, the standard \<open>random\<close>
  module, Matplotlib, scikit-learn and pandas, glued by a few indexing expressions. The
  model below follows it cell by cell. What the notebook itself computes (shapes, indices,
  slices, the negation of a score column, the arguments of every call) is written out;
  what a library computes (the contents of a file, the trained weights, a prediction, an
  ROC curve, an area) is read from an environment \<open>env\<close>, so that every theorem holds for
  whatever the libraries return. The entries of an array are opaque to the notebook and
  are modelled as real numbers. A column of the CSV file keeps its pandas number type,
  because the notebook negates two columns and the negation is that of the type.
\<close>

subsection \<open>Exceptions and arrays\<close>

datatype error =
    FileNotFoundError string
  | IndexError
  | KeyError string
  | ValueError
  | OtherError string

text \<open>A NumPy array: its shape and its entries in row-major (C) order.\<close>

record ndarray =
  shape :: "nat list"
  data :: "real list"

definition wf_array :: "ndarray \<Rightarrow> bool" where
  "wf_array a = (length (data a) = prod_list (shape a))"

text \<open>Python's integer index into an axis of length \<open>n\<close>: negative indices count from the end.\<close>

definition py_index :: "nat \<Rightarrow> int \<Rightarrow> error + nat" where
  "py_index n i =
     (let k = (if i < 0 then int n + i else i)
      in if 0 \<le> k \<and> k < int n then Inr (nat k) else Inl IndexError)"

text \<open>\<open>a[:, j, :]\<close>: three index positions, so the array needs at least three axes.\<close>

definition take_axis1 :: "ndarray \<Rightarrow> int \<Rightarrow> error + ndarray" where
  "take_axis1 a j =
     (case shape a of
        n # t # d # rest \<Rightarrow>
          (case py_index t j of
             Inl e \<Rightarrow> Inl e
           | Inr k \<Rightarrow>
               let sz = prod_list (d # rest)
               in Inr \<lparr>shape = n # d # rest,
                       data = concat (map (\<lambda>i. take sz (drop ((i * t + k) * sz) (data a))) [0..<n])\<rparr>)
      | _ \<Rightarrow> Inl IndexError)"

text \<open>\<open>a[i, lo:hi]\<close> for non-negative slice bounds: the slice is clipped to the axis.\<close>

definition row_slice :: "ndarray \<Rightarrow> int \<Rightarrow> nat \<Rightarrow> nat \<Rightarrow> error + ndarray" where
  "row_slice a i lo hi =
     (case shape a of
        n # t # rest \<Rightarrow>
          (case py_index n i of
             Inl e \<Rightarrow> Inl e
           | Inr k \<Rightarrow>
               let sz = prod_list rest; start = min lo t; stop = min hi t
               in Inr \<lparr>shape = (stop - start) # rest,
                       data = take ((stop - start) * sz) (drop ((k * t + start) * sz) (data a))\<rparr>)
      | _ \<Rightarrow> Inl IndexError)"

text \<open>\<open>a[i, lo:hi, :]\<close>: the same entries, but a third index position must exist.\<close>

definition row_slice_all :: "ndarray \<Rightarrow> int \<Rightarrow> nat \<Rightarrow> nat \<Rightarrow> error + ndarray" where
  "row_slice_all a i lo hi =
     (if length (shape a) < 3 then Inl IndexError else row_slice a i lo hi)"

text \<open>\<open>a.squeeze()\<close> drops every axis of length one; the entries stay as they are.\<close>

definition squeeze :: "ndarray \<Rightarrow> ndarray" where
  "squeeze a = \<lparr>shape = filter (\<lambda>d. d \<noteq> 1) (shape a), data = data a\<rparr>"

text \<open>Multi-indices and flat positions of the row-major layout.\<close>

fun unravel :: "nat list \<Rightarrow> nat \<Rightarrow> nat list" where
  "unravel [] k = []"
| "unravel (d # ds) k = (k div prod_list ds) # unravel ds (k mod prod_list ds)"

fun ravel :: "nat list \<Rightarrow> nat list \<Rightarrow> nat" where
  "ravel (d # ds) (i # js) = i * prod_list ds + ravel ds js"
| "ravel _ _ = 0"

text \<open>\<open>np.transpose(a)\<close> reverses the axes.\<close>

definition np_transpose :: "ndarray \<Rightarrow> ndarray" where
  "np_transpose a =
     \<lparr>shape = rev (shape a),
      data = map (\<lambda>k. data a ! ravel (shape a) (rev (unravel (rev (shape a)) k)))
                 [0..<prod_list (shape a)]\<rparr>"

text \<open>\<open>a.shape[0]\<close> and \<open>a.shape[-1]\<close>: indexing the shape tuple, which is empty for a
  zero-dimensional array.\<close>

definition shape_first :: "ndarray \<Rightarrow> error + nat" where
  "shape_first a = (case shape a of [] \<Rightarrow> Inl IndexError | n # _ \<Rightarrow> Inr n)"

definition shape_last :: "ndarray \<Rightarrow> error + nat" where
  "shape_last a = (if shape a = [] then Inl IndexError else Inr (last (shape a)))"

subsection \<open>A pandas frame of numeric columns\<close>

text \<open>
  \<open>pd.read_csv\<close> gives a column of whole numbers the type \<open>int64\<close> (or \<open>uint64\<close> when a
  value does not fit), and a column with a fraction or a gap the type \<open>float64\<close>.
\<close>

datatype pd_column =
    Int64 "64 word list"
  | UInt64 "64 word list"
  | Float64 "real list"

type_synonym dataframe = "string \<rightharpoonup> pd_column"

definition column :: "dataframe \<Rightarrow> string \<Rightarrow> error + pd_column" where
  "column df name = (case df name of None \<Rightarrow> Inl (KeyError name) | Some c \<Rightarrow> Inr c)"

text \<open>The numbers a column holds: an \<open>int64\<close> is read signed, a \<open>uint64\<close> unsigned.\<close>

fun entries :: "pd_column \<Rightarrow> real list" where
  "entries (Int64 ws) = map (\<lambda>w. real_of_int (sint w)) ws"
| "entries (UInt64 ws) = map (\<lambda>w. real (unat w)) ws"
| "entries (Float64 xs) = xs"

text \<open>A column handed to scikit-learn is read as a one-dimensional array of its numbers.\<close>

definition series :: "pd_column \<Rightarrow> ndarray" where
  "series c = \<lparr>shape = [length (entries c)], data = entries c\<rparr>"

text \<open>\<open>-index['PIM2']\<close>: the unary minus of the notebook, entry by entry, in the number
  type of the column. On the two integer types it wraps around modulo \<open>2 ^ 64\<close>.\<close>

fun neg :: "pd_column \<Rightarrow> pd_column" where
  "neg (Int64 ws) = Int64 (map uminus ws)"
| "neg (UInt64 ws) = UInt64 (map uminus ws)"
| "neg (Float64 xs) = Float64 (map uminus xs)"


text \<open>\<open>os.path.join\<close> of two components on a POSIX system.\<close>

definition path_join :: "string \<Rightarrow> string \<Rightarrow> string" where
  "path_join a b =
     (if b \<noteq> [] \<and> hd b = CHR ''/'' then b
      else if a = [] \<or> last a = CHR ''/'' then a @ b
      else a @ ''/'' @ b)"

subsection \<open>The Keras objects the notebook constructs\<close>

record lstm_kwargs =
  dropout :: real
  recurrent_dropout :: real
  return_sequences :: bool
  implementation :: nat

text \<open>A layer with the arguments the notebook gives it; the last string is its \<open>name\<close>,
  and the string of \<open>Dense\<close> its \<open>activation\<close>.\<close>

datatype layer =
    Input "nat option list" string
  | Masking real string
  | LSTM nat lstm_kwargs string
  | Dense nat string
  | TimeDistributed layer string

text \<open>A symbolic tensor of the functional API is the chain of layers that produced it;
  calling a layer on a tensor extends the chain.\<close>

type_synonym tensor = "layer list"

definition apply_layer :: "layer \<Rightarrow> tensor \<Rightarrow> tensor" where
  "apply_layer l x = x @ [l]"

record model =
  layers :: "layer list"
  optimizer :: "(string \<times> real) option"
  loss :: "string option"

text \<open>\<open>Model(inputs=x, outputs=output)\<close>: the layers on the path from \<open>x\<close> to \<open>output\<close>.\<close>

definition Model :: "tensor \<Rightarrow> tensor \<Rightarrow> model" where
  "Model inputs outputs = \<lparr>layers = outputs, optimizer = None, loss = None\<rparr>"

definition compile :: "model \<Rightarrow> string \<times> real \<Rightarrow> string \<Rightarrow> model" where
  "compile m opt l = m\<lparr>optimizer := Some opt, loss := Some l\<rparr>"

text \<open>Layers that carry trainable weights: the input placeholder and the mask have none.\<close>

fun has_weights :: "layer \<Rightarrow> bool" where
  "has_weights (Input _ _) = False"
| "has_weights (Masking _ _) = False"
| "has_weights (LSTM _ _ _) = True"
| "has_weights (Dense _ _) = True"
| "has_weights (TimeDistributed l _) = has_weights l"

subsection \<open>Library calls, their log, and the environment\<close>

text \<open>
  Every call that leaves the notebook for a library with an effect or a computed result.
  The number after \<open>Pcolor\<close>, \<open>SetYlim\<close> and \<open>AxPlot\<close> is the panel (\<open>ax1\<close> is 0,
  \<open>ax2\<close> is 1); \<open>PlotLine\<close> carries \<open>x\<close>, \<open>y\<close>, \<open>label\<close>, \<open>color\<close>, \<open>linewidth\<close>
  and \<open>alpha\<close>; the number after a text is its \<open>fontsize\<close>. A label is the Python
  expression \<open>template % value\<close>, kept as its two operands.
\<close>

datatype formatted = Percent string real

datatype call =
    is_NpLoad: NpLoad string
  | Summary model
  | is_Fit: Fit model ndarray ndarray nat nat nat
  | is_Predict: Predict model ndarray
  | RandInt int int
  | Subplots nat nat
  | Pcolor nat ndarray
  | SetYlim nat real real
  | Ylabel string "nat option"
  | Xlabel string "nat option"
  | AxPlot nat ndarray
  | is_RocCurve: RocCurve ndarray ndarray
  | is_Auc: Auc "real list" "real list"
  | ReadCsv string
  | Figure real real
  | PlotLine "real list" "real list" formatted string real real
  | Legend string nat
  | Xlim real real
  | Ylim real real
  | Xticks "real list" nat
  | Yticks "real list" nat
  | Title string nat
  | Grid real
  | TightLayout

datatype outcome = Returned | Raised error

type_synonym log = "(call \<times> outcome) list"

text \<open>An ROC curve as scikit-learn returns it: \<open>(fpr, tpr, thresholds)\<close>.\<close>

type_synonym roc = "real list \<times> real list \<times> real list"

text \<open>
  What the outside world answers. \<open>'w\<close> is the state of the fitted network,
  \<open>predict_result\<close> what \<open>model.predict\<close> answers, \<open>randbits\<close> the randomness
  \<open>random.randint\<close> consumes; \<open>effect_raises\<close> says whether a call made only for its
  effect (printing, plotting) raises.
\<close>

record 'w env =
  np_load_file :: "string \<Rightarrow> error + ndarray"
  keras_fit :: "model \<Rightarrow> ndarray \<Rightarrow> ndarray \<Rightarrow> nat \<Rightarrow> nat \<Rightarrow> error + 'w"
  predict_result :: "model \<Rightarrow> 'w \<Rightarrow> ndarray \<Rightarrow> error + ndarray"
  randbits :: nat
  effect_raises :: "call \<Rightarrow> error option"
  sk_roc_curve :: "ndarray \<Rightarrow> ndarray \<Rightarrow> error + roc"
  sk_auc :: "real list \<Rightarrow> real list \<Rightarrow> error + real"
  read_csv_file :: "string \<Rightarrow> error + dataframe"

text \<open>A step of the notebook: it extends the log and returns a value or an exception.
  There is no handler: \<open>bnd\<close> stops at the first exception.\<close>

type_synonym 'a nb = "log \<Rightarrow> (error + 'a) \<times> log"

definition ret :: "'a \<Rightarrow> 'a nb" where
  "ret a = (\<lambda>l. (Inr a, l))"

definition lift :: "error + 'a \<Rightarrow> 'a nb" where
  "lift r = (\<lambda>l. (r, l))"

definition bnd :: "'a nb \<Rightarrow> ('a \<Rightarrow> 'b nb) \<Rightarrow> 'b nb" where
  "bnd m f = (\<lambda>l. case m l of (Inl e, l') \<Rightarrow> (Inl e, l') | (Inr a, l') \<Rightarrow> f a l')"

definition lib_call :: "call \<Rightarrow> error + 'a \<Rightarrow> 'a nb" where
  "lib_call c r = (\<lambda>l. (r, l @ [(c, case r of Inl e \<Rightarrow> Raised e | Inr _ \<Rightarrow> Returned)]))"

definition effect :: "'w env \<Rightarrow> call \<Rightarrow> unit nb" where
  "effect env c = lib_call c (case effect_raises env c of None \<Rightarrow> Inr () | Some e \<Rightarrow> Inl e)"

definition np_load :: "'w env \<Rightarrow> string \<Rightarrow> ndarray nb" where
  "np_load env name = lib_call (NpLoad name) (np_load_file env name)"

definition fit :: "'w env \<Rightarrow> model \<Rightarrow> ndarray \<Rightarrow> ndarray \<Rightarrow> nat \<Rightarrow> nat \<Rightarrow> nat \<Rightarrow> 'w nb" where
  "fit env m x y batch_size epochs verbose =
     lib_call (Fit m x y batch_size epochs verbose) (keras_fit env m x y batch_size epochs)"

definition predict :: "'w env \<Rightarrow> model \<Rightarrow> 'w \<Rightarrow> ndarray \<Rightarrow> ndarray nb" where
  "predict env m w x = lib_call (Predict m x) (predict_result env m w x)"


text \<open>\<open>random.randint(a, b)\<close>: some integer of \<open>a..b\<close>, and \<open>ValueError\<close> on an empty range.\<close>

definition randint :: "'w env \<Rightarrow> int \<Rightarrow> int \<Rightarrow> int nb" where
  "randint env a b =
     lib_call (RandInt a b)
       (if b < a then Inl ValueError else Inr (a + int (randbits env) mod (b - a + 1)))"

definition roc_curve :: "'w env \<Rightarrow> ndarray \<Rightarrow> ndarray \<Rightarrow> roc nb" where
  "roc_curve env y_true y_score = lib_call (RocCurve y_true y_score) (sk_roc_curve env y_true y_score)"

definition auc :: "'w env \<Rightarrow> real list \<Rightarrow> real list \<Rightarrow> real nb" where
  "auc env x y = lib_call (Auc x y) (sk_auc env x y)"

definition read_csv :: "'w env \<Rightarrow> string \<Rightarrow> dataframe nb" where
  "read_csv env path = lib_call (ReadCsv path) (read_csv_file env path)"

subsection \<open>The cells of the notebook\<close>

text \<open>Cell 4: the four arrays saved by the previous notebook.\<close>

definition load_data :: "'w env \<Rightarrow> (ndarray \<times> ndarray \<times> ndarray \<times> ndarray) nb" where
  "load_data env =
     bnd (np_load env ''X_train_prepared.npy'') (\<lambda>X_train.
     bnd (np_load env ''y_train_prepared.npy'') (\<lambda>y_train.
     bnd (np_load env ''X_valid_prepared.npy'') (\<lambda>X_valid.
     bnd (np_load env ''y_valid_prepared.npy'') (\<lambda>y_valid.
     ret (X_train, y_train, X_valid, y_valid)))))"

text \<open>Cell 9: the network, as a function of \<open>X_train.shape[-1]\<close>, compiled and printed.\<close>

definition lstm_kwargs :: lstm_kwargs where
  "lstm_kwargs =
     \<lparr>dropout = 0.25, recurrent_dropout = 0.1, return_sequences = True, implementation = 2\<rparr>"

definition architecture :: "nat \<Rightarrow> model" where
  "architecture features =
     (let x = apply_layer (Input [None, Some features] ''input'') [];
          mask = apply_layer (Masking 0 ''input_masked'') x;
          lstm1 = apply_layer (LSTM 128 lstm_kwargs ''lstm1'') mask;
          output = apply_layer (TimeDistributed (Dense 1 ''sigmoid'') ''output'') lstm1;
          model = Model x output;
          optimizer = (''RMSprop'', 0.005)
      in compile model optimizer ''binary_crossentropy'')"

definition build_model :: "'w env \<Rightarrow> ndarray \<Rightarrow> model nb" where
  "build_model env X_train =
     bnd (lift (shape_last X_train)) (\<lambda>features.
     bnd (effect env (Summary (architecture features))) (\<lambda>_.
     ret (architecture features)))"

text \<open>Cell 19: one random encounter of the validation set, its observations above its
  predictions. Both \<open>plt.ylabel\<close> and \<open>plt.xlabel\<close> act on the current axes.\<close>

definition plot_encounter :: "'w env \<Rightarrow> ndarray \<Rightarrow> ndarray \<Rightarrow> int nb" where
  "plot_encounter env X_valid preds =
     bnd (lift (shape_first X_valid)) (\<lambda>numencnt.
     bnd (randint env 0 (int numencnt - 1)) (\<lambda>ix.
     bnd (effect env (Subplots 2 1)) (\<lambda>_.
     bnd (lift (row_slice_all X_valid ix 1 50)) (\<lambda>obs.
     bnd (effect env (Pcolor 0 (np_transpose obs))) (\<lambda>_.
     bnd (effect env (SetYlim 0 0 265)) (\<lambda>_.
     bnd (effect env (Ylabel ''mortality'' None)) (\<lambda>_.
     bnd (effect env (Xlabel ''time/observation'' None)) (\<lambda>_.
     bnd (lift (row_slice preds ix 1 50)) (\<lambda>trace.
     bnd (effect env (AxPlot 1 trace)) (\<lambda>_.
     ret ix))))))))))"

text \<open>Cell 22: the label of an encounter is read at the first timestep of \<open>y_valid\<close>, its
  prediction at the last timestep of \<open>preds\<close>.\<close>

definition rnn_eval :: "'w env \<Rightarrow> ndarray \<Rightarrow> ndarray \<Rightarrow> (ndarray \<times> ndarray \<times> roc \<times> real) nb" where
  "rnn_eval env y_valid preds =
     bnd (lift (take_axis1 y_valid 0)) (\<lambda>first_step.
     bnd (lift (take_axis1 preds (- 1))) (\<lambda>last_step.
     let label = squeeze first_step; prediction = squeeze last_step in
     bnd (roc_curve env label prediction) (\<lambda>rnn_roc.
     bnd (auc env (fst rnn_roc) (fst (snd rnn_roc))) (\<lambda>rnn_auc.
     ret (label, prediction, rnn_roc, rnn_auc)))))"

text \<open>Cell 24: the two severity scores of the CSV file, negated, against the recorded
  outcome.\<close>

definition baselines :: "'w env \<Rightarrow> (dataframe \<times> pd_column \<times> roc \<times> roc \<times> real \<times> real) nb" where
  "baselines env =
     bnd (read_csv env (path_join ''/dli/task/csv'' ''pim2prism3.csv'')) (\<lambda>index.
     bnd (lift (column index ''mortalityResponse'')) (\<lambda>mortrep.
     bnd (lift (column index ''PIM2'')) (\<lambda>pim2.
     bnd (roc_curve env (series mortrep) (series (neg pim2))) (\<lambda>pim2_roc.
     bnd (lift (column index ''PRISM3'')) (\<lambda>prism3.
     bnd (roc_curve env (series mortrep) (series (neg prism3))) (\<lambda>prism3_roc.
     bnd (auc env (fst pim2_roc) (fst (snd pim2_roc))) (\<lambda>pim2_auc.
     bnd (auc env (fst prism3_roc) (fst (snd prism3_roc))) (\<lambda>prism3_auc.
     ret (index, mortrep, pim2_roc, prism3_roc, pim2_auc, prism3_auc)))))))))"

text \<open>Cell 26: the three curves in one figure, each labelled with its area.\<close>

definition plot_rocs :: "'w env \<Rightarrow> roc \<Rightarrow> real \<Rightarrow> roc \<Rightarrow> real \<Rightarrow> roc \<Rightarrow> real \<Rightarrow> unit nb" where
  "plot_rocs env prism3_roc prism3_auc pim2_roc pim2_auc rnn_roc rnn_auc =
     bnd (effect env (Figure 7 5)) (\<lambda>_.
     bnd (effect env (PlotLine (fst prism3_roc) (fst (snd prism3_roc))
            (Percent ''prism3: %0.3f'' prism3_auc) ''#4A86E8'' 4 0.8)) (\<lambda>_.
     bnd (effect env (PlotLine (fst pim2_roc) (fst (snd pim2_roc))
            (Percent ''pim2: %0.3f'' pim2_auc) ''#FF9900'' 4 0.8)) (\<lambda>_.
     bnd (effect env (PlotLine (fst rnn_roc) (fst (snd rnn_roc))
            (Percent ''rnn: %0.3f'' rnn_auc) ''#6AA84F'' 4 0.8)) (\<lambda>_.
     bnd (effect env (Legend ''lower right'' 20)) (\<lambda>_.
     bnd (effect env (Xlim (- 0.05) 1.05)) (\<lambda>_.
     bnd (effect env (Ylim (- 0.05) 1.05)) (\<lambda>_.
     bnd (effect env (Xticks [0, 0.25, 0.5, 0.75, 1.0] 14)) (\<lambda>_.
     bnd (effect env (Yticks [0, 0.25, 0.5, 0.75, 1.0] 14)) (\<lambda>_.
     bnd (effect env (Xlabel ''False Positive Rate'' (Some 18))) (\<lambda>_.
     bnd (effect env (Ylabel ''True Positive Rate'' (Some 18))) (\<lambda>_.
     bnd (effect env (Title ''Severity of Illness ROC Curves'' 24)) (\<lambda>_.
     bnd (effect env (Grid 0.25)) (\<lambda>_.
     effect env TightLayout)))))))))))))"

text \<open>The variables the notebook holds when its last cell has run.\<close>

record 'w vars =
  X_train :: ndarray
  y_train :: ndarray
  X_valid :: ndarray
  y_valid :: ndarray
  model :: model
  history :: 'w
  preds :: ndarray
  ix :: int
  label :: ndarray
  prediction :: ndarray
  rnn_roc :: roc
  rnn_auc :: real
  index :: dataframe
  mortrep :: pd_column
  pim2_roc :: roc
  prism3_roc :: roc
  pim2_auc :: real
  prism3_auc :: real

text \<open>The cells in order (cell 12 is the \<open>fit\<close>, cell 15 the \<open>predict\<close>; cell 17 only
  displays \<open>preds.shape\<close>).\<close>

definition notebook :: "'w env \<Rightarrow> 'w vars nb" where
  "notebook env =
     bnd (load_data env) (\<lambda>(X_train, y_train, X_valid, y_valid).
     bnd (build_model env X_train) (\<lambda>model.
     bnd (fit env model X_train y_train 128 5 1) (\<lambda>history.
     bnd (predict env model history X_valid) (\<lambda>preds.
     bnd (plot_encounter env X_valid preds) (\<lambda>ix.
     bnd (rnn_eval env y_valid preds) (\<lambda>(label, prediction, rnn_roc, rnn_auc).
     bnd (baselines env) (\<lambda>(index, mortrep, pim2_roc, prism3_roc, pim2_auc, prism3_auc).
     bnd (plot_rocs env prism3_roc prism3_auc pim2_roc pim2_auc rnn_roc rnn_auc) (\<lambda>_.
     ret \<lparr>X_train = X_train, y_train = y_train, X_valid = X_valid, y_valid = y_valid,
          model = model, history = history, preds = preds, ix = ix,
          label = label, prediction = prediction, rnn_roc = rnn_roc, rnn_auc = rnn_auc,
          index = index, mortrep = mortrep, pim2_roc = pim2_roc, prism3_roc = prism3_roc,
          pim2_auc = pim2_auc, prism3_auc = prism3_auc\<rparr>))))))))"

text \<open>A run starts with an empty log.\<close>

definition run :: "'w env \<Rightarrow> (error + 'w vars) \<times> log" where
  "run env = notebook env []"

subsection \<open>The order of the calls\<close>

text \<open>
  The kind of a call keeps which library routine is entered and the arguments the notebook
  writes as literals, and forgets the data. \<open>script\<close> lists the kinds in the order of
  the cells.
\<close>

datatype kind =
    is_Load: Load string
  | Print
  | is_Train: Train nat nat nat
  | Infer
  | Random
  | New_figure
  | Draw
  | Roc
  | Area
  | Csv string

fun kind_of :: "call \<Rightarrow> kind" where
  "kind_of (NpLoad name) = Load name"
| "kind_of (Summary m) = Print"
| "kind_of (Fit m x y batch_size epochs verbose) = Train batch_size epochs verbose"
| "kind_of (Predict m x) = Infer"
| "kind_of (RandInt a b) = Random"
| "kind_of (Subplots r c) = New_figure"
| "kind_of (Figure w h) = New_figure"
| "kind_of (RocCurve y s) = Roc"
| "kind_of (Auc x y) = Area"
| "kind_of (ReadCsv path) = Csv path"
| "kind_of _ = Draw"

text \<open>Cells 4, 9, 12, 15, 19, 22, 24 and 26.\<close>

definition script :: "kind list" where
  "script =
     [Load ''X_train_prepared.npy'', Load ''y_train_prepared.npy'',
      Load ''X_valid_prepared.npy'', Load ''y_valid_prepared.npy''] @
     [Print] @ [Train 128 5 1] @ [Infer] @
     [Random, New_figure, Draw, Draw, Draw, Draw, Draw] @
     [Roc, Area] @
     [Csv ''/dli/task/csv/pim2prism3.csv'', Roc, Roc, Area, Area] @
     [New_figure, Draw, Draw, Draw, Draw, Draw, Draw, Draw, Draw, Draw, Draw, Draw, Draw, Draw]"

text \<open>The kinds of the calls of a log, and the discipline of a step: it appends to the log
  calls whose kinds are an initial part of \<open>ks\<close> (all of it when the step returns), and a
  call that raised is the last one, its exception being the outcome of the step.\<close>

definition kinds :: "log \<Rightarrow> kind list" where
  "kinds l = map (\<lambda>x. kind_of (fst x)) l"

definition last_raises :: "error + 'a \<Rightarrow> log \<Rightarrow> bool" where
  "last_raises r new =
     (\<forall>i<length new. \<forall>e. snd (new ! i) = Raised e \<longrightarrow> Suc i = length new \<and> r = Inl e)"

definition follows :: "'a nb \<Rightarrow> kind list \<Rightarrow> bool" where
  "follows m ks =
     (\<forall>l r l'. m l = (r, l') \<longrightarrow>
        (\<exists>new. l' = l @ new \<and> kinds new = take (length new) ks \<and> length new \<le> length ks \<and>
           (\<forall>a. r = Inr a \<longrightarrow> length new = length ks) \<and> last_raises r new))"



subsection \<open>A small environment on which the notebook runs to its end\<close>

text \<open>
  Three training encounters and two validation encounters with three timesteps and one
  feature, a CSV file with two patients, a network that answers an input of shape
  \<open>(n, t, f)\<close> with a prediction of shape \<open>(n, t, 1)\<close> whose entry at flat position \<open>k\<close> is
  \<open>k / 8\<close>, and libraries that never raise.
\<close>

definition demo_X_train :: ndarray where
  "demo_X_train = \<lparr>shape = [3, 2, 1], data = [1, 2, 3, 4, 5, 6]\<rparr>"

definition demo_y_train :: ndarray where
  "demo_y_train = \<lparr>shape = [3, 2, 1], data = [0, 0, 1, 1, 0, 0]\<rparr>"

definition demo_X_valid :: ndarray where
  "demo_X_valid = \<lparr>shape = [2, 3, 1], data = [7, 8, 9, 10, 11, 12]\<rparr>"

definition demo_y_valid :: ndarray where
  "demo_y_valid = \<lparr>shape = [2, 3, 1], data = [1, 1, 1, 0, 0, 0]\<rparr>"

definition demo_csv :: dataframe where
  "demo_csv =
     [''mortalityResponse'' \<mapsto> Int64 [0, 1], ''PIM2'' \<mapsto> Float64 [1 / 4, 3 / 4],
      ''PRISM3'' \<mapsto> Int64 [2, 5]]"

definition demo_roc :: roc where
  "demo_roc = ([0, 1], [0, 1], [1, 0])"

definition demo_env :: "unit env" where
  "demo_env = \<lparr>
     np_load_file = (\<lambda>name.
        if name = ''X_train_prepared.npy'' then Inr demo_X_train
        else if name = ''y_train_prepared.npy'' then Inr demo_y_train
        else if name = ''X_valid_prepared.npy'' then Inr demo_X_valid
        else if name = ''y_valid_prepared.npy'' then Inr demo_y_valid
        else Inl (FileNotFoundError name)),
     keras_fit = (\<lambda>m x y b e. Inr ()),
     predict_result = (\<lambda>m w x.
        case shape x of
          [n, t, f] \<Rightarrow> Inr \<lparr>shape = [n, t, 1], data = map (\<lambda>k. real k / 8) [0..<n * t]\<rparr>
        | _ \<Rightarrow> Inl ValueError),
     randbits = 3,
     effect_raises = (\<lambda>c. None),
     sk_roc_curve = (\<lambda>y s. Inr demo_roc),
     sk_auc = (\<lambda>x y. Inr (1 / 2)),
     read_csv_file = (\<lambda>p.
        if p = ''/dli/task/csv/pim2prism3.csv'' then Inr demo_csv else Inl (FileNotFoundError p))\<rparr>"

definition demo_preds :: ndarray where
  "demo_preds = \<lparr>shape = [2, 3, 1], data = [0, 1 / 8, 1 / 4, 3 / 8, 1 / 2, 5 / 8]\<rparr>"

definition demo_vars :: "unit vars" where
  "demo_vars = \<lparr>X_train = demo_X_train, y_train = demo_y_train, X_valid = demo_X_valid,
       y_valid = demo_y_valid, model = architecture 1, history = (), preds = demo_preds, ix = 1,
       label = \<lparr>shape = [2], data = [1, 0]\<rparr>, prediction = \<lparr>shape = [2], data = [1 / 4, 5 / 8]\<rparr>,
       rnn_roc = demo_roc, rnn_auc = 1 / 2, index = demo_csv, mortrep = Int64 [0, 1],
       pim2_roc = demo_roc, prism3_roc = demo_roc, pim2_auc = 1 / 2, prism3_auc = 1 / 2\<rparr>"

text \<open>The same environment with \<open>X_valid_prepared.npy\<close> missing, and with the CSV file
  missing.\<close>

definition demo_env_no_npy :: "unit env" where
  "demo_env_no_npy =
     demo_env\<lparr>np_load_file := (\<lambda>name.
        if name = ''X_valid_prepared.npy'' then Inl (FileNotFoundError name)
        else np_load_file demo_env name)\<rparr>"

definition demo_env_no_csv :: "unit env" where
  "demo_env_no_csv = demo_env\<lparr>read_csv_file := (\<lambda>p. Inl (FileNotFoundError p))\<rparr>"



section \<open>Successful runs\<close>

subsection \<open>What a step that returns has done\<close>

lemma ret_Inr: "ret a l = (Inr b, l') \<longleftrightarrow> b = a \<and> l' = l"
  by (auto simp: ret_def)

lemma lift_Inr: "lift r l = (Inr b, l') \<longleftrightarrow> r = Inr b \<and> l' = l"
  by (auto simp: lift_def)

lemma lib_call_Inr: "lib_call c r l = (Inr b, l') \<longleftrightarrow> r = Inr b \<and> l' = l @ [(c, Returned)]"
  by (auto simp: lib_call_def)

lemma bnd_Inr: "bnd m f l = (Inr b, l') \<longleftrightarrow> (\<exists>a l1. m l = (Inr a, l1) \<and> f a l1 = (Inr b, l'))"
  by (auto simp: bnd_def split: prod.splits sum.splits)

lemma bnd_InrE:
  assumes "bnd m f l = (Inr b, l')"
  obtains a l1 where "m l = (Inr a, l1)" "f a l1 = (Inr b, l')"
  using assms unfolding bnd_Inr by blast

lemma effect_Inr:
  "effect env c l = (Inr u, l') \<longleftrightarrow> effect_raises env c = None \<and> l' = l @ [(c, Returned)]"
  by (auto simp: effect_def lib_call_def split: option.splits)

lemmas step_Inr = ret_Inr lift_Inr lib_call_Inr bnd_Inr effect_Inr

lemma csv_path: "path_join ''/dli/task/csv'' ''pim2prism3.csv'' = ''/dli/task/csv/pim2prism3.csv''"
  by (simp add: path_join_def)

lemma column_Inr: "column df name = Inr c \<longleftrightarrow> df name = Some c"
  by (simp add: column_def split: option.splits)

subsection \<open>Cell by cell\<close>

lemma load_data_Inr:
  "load_data env l = (Inr r, l') \<longleftrightarrow>
     (\<exists>a b c d. r = (a, b, c, d) \<and>
        np_load_file env ''X_train_prepared.npy'' = Inr a \<and>
        np_load_file env ''y_train_prepared.npy'' = Inr b \<and>
        np_load_file env ''X_valid_prepared.npy'' = Inr c \<and>
        np_load_file env ''y_valid_prepared.npy'' = Inr d \<and>
        l' = l @ [(NpLoad ''X_train_prepared.npy'', Returned),
                  (NpLoad ''y_train_prepared.npy'', Returned),
                  (NpLoad ''X_valid_prepared.npy'', Returned),
                  (NpLoad ''y_valid_prepared.npy'', Returned)])"
  unfolding load_data_def np_load_def step_Inr by auto

lemma build_model_Inr:
  "build_model env X l = (Inr m, l') \<longleftrightarrow>
     shape X \<noteq> [] \<and> m = architecture (last (shape X)) \<and>
     effect_raises env (Summary m) = None \<and> l' = l @ [(Summary m, Returned)]"
  unfolding build_model_def step_Inr shape_last_def by auto

lemma fit_Inr:
  "fit env m x y b e v l = (Inr w, l') \<longleftrightarrow>
     keras_fit env m x y b e = Inr w \<and> l' = l @ [(Fit m x y b e v, Returned)]"
  unfolding fit_def step_Inr by auto

lemma predict_Inr:
  "predict env m w x l = (Inr p, l') \<longleftrightarrow>
     predict_result env m w x = Inr p \<and> l' = l @ [(Predict m x, Returned)]"
  unfolding predict_def step_Inr by auto

lemma plot_encounter_Inr:
  "plot_encounter env X p l = (Inr i, l') \<longleftrightarrow>
    (\<exists>n obs trace. shape_first X = Inr n \<and> 0 < n \<and> i = int (randbits env) mod int n \<and>
        row_slice_all X i 1 50 = Inr obs \<and> row_slice p i 1 50 = Inr trace \<and>
        effect_raises env (Subplots 2 1) = None \<and>
        effect_raises env (Pcolor 0 (np_transpose obs)) = None \<and>
        effect_raises env (SetYlim 0 0 265) = None \<and>
        effect_raises env (Ylabel ''mortality'' None) = None \<and>
        effect_raises env (Xlabel ''time/observation'' None) = None \<and>
        effect_raises env (AxPlot 1 trace) = None \<and>
        l' = l @ [(RandInt 0 (int n - 1), Returned), (Subplots 2 1, Returned),
                  (Pcolor 0 (np_transpose obs), Returned), (SetYlim 0 0 265, Returned),
                  (Ylabel ''mortality'' None, Returned),
                  (Xlabel ''time/observation'' None, Returned),
                  (AxPlot 1 trace, Returned)])"
  unfolding plot_encounter_def randint_def step_Inr by (auto split: if_splits)

lemma rnn_eval_InrE:
  assumes "rnn_eval env y p l = (Inr r, l')"
  obtains first_step last_step roc area where
    "take_axis1 y 0 = Inr first_step" "take_axis1 p (- 1) = Inr last_step"
    "sk_roc_curve env (squeeze first_step) (squeeze last_step) = Inr roc"
    "sk_auc env (fst roc) (fst (snd roc)) = Inr area"
    "r = (squeeze first_step, squeeze last_step, roc, area)"
    "l' = l @ [(RocCurve (squeeze first_step) (squeeze last_step), Returned),
               (Auc (fst roc) (fst (snd roc)), Returned)]"
  using assms unfolding rnn_eval_def roc_curve_def auc_def Let_def
  apply -
  apply ((erule bnd_InrE | simp only: lift_Inr lib_call_Inr ret_Inr | erule conjE)+)
  apply simp
  done

lemma baselines_InrE:
  assumes "baselines env l = (Inr r, l')"
  obtains df outcome pim2 prism3 roc2 roc3 area2 area3 where
    "read_csv_file env ''/dli/task/csv/pim2prism3.csv'' = Inr df"
    "df ''mortalityResponse'' = Some outcome" "df ''PIM2'' = Some pim2"
    "df ''PRISM3'' = Some prism3"
    "sk_roc_curve env (series outcome) (series (neg pim2)) = Inr roc2"
    "sk_roc_curve env (series outcome) (series (neg prism3)) = Inr roc3"
    "sk_auc env (fst roc2) (fst (snd roc2)) = Inr area2"
    "sk_auc env (fst roc3) (fst (snd roc3)) = Inr area3"
    "r = (df, outcome, roc2, roc3, area2, area3)"
    "l' = l @ [(ReadCsv ''/dli/task/csv/pim2prism3.csv'', Returned),
               (RocCurve (series outcome) (series (neg pim2)), Returned),
               (RocCurve (series outcome) (series (neg prism3)), Returned),
               (Auc (fst roc2) (fst (snd roc2)), Returned),
               (Auc (fst roc3) (fst (snd roc3)), Returned)]"
  using assms unfolding baselines_def read_csv_def roc_curve_def auc_def csv_path
  apply -
  apply ((erule bnd_InrE | simp only: lift_Inr lib_call_Inr ret_Inr column_Inr | erule conjE)+)
  apply simp
  done

lemma plot_rocs_Inr:
  "plot_rocs env r3 a3 r2 a2 r1 a1 l = (Inr u, l') \<Longrightarrow>
     l' = l @ map (\<lambda>c. (c, Returned))
       [Figure 7 5,
        PlotLine (fst r3) (fst (snd r3)) (Percent ''prism3: %0.3f'' a3) ''#4A86E8'' 4 0.8,
        PlotLine (fst r2) (fst (snd r2)) (Percent ''pim2: %0.3f'' a2) ''#FF9900'' 4 0.8,
        PlotLine (fst r1) (fst (snd r1)) (Percent ''rnn: %0.3f'' a1) ''#6AA84F'' 4 0.8,
        Legend ''lower right'' 20, Xlim (- 0.05) 1.05, Ylim (- 0.05) 1.05,
        Xticks [0, 0.25, 0.5, 0.75, 1.0] 14, Yticks [0, 0.25, 0.5, 0.75, 1.0] 14,
        Xlabel ''False Positive Rate'' (Some 18), Ylabel ''True Positive Rate'' (Some 18),
        Title ''Severity of Illness ROC Curves'' 24, Grid 0.25, TightLayout]"
  unfolding plot_rocs_def
  apply ((erule bnd_InrE | simp only: effect_Inr | clarify)+)
  apply simp
  done

lemma notebook_cells:
  assumes "notebook env l0 = (Inr v, l)"
  obtains l4 l5 l6 l7 l8 l9 l10 where
    "load_data env l0 = (Inr (X_train v, y_train v, X_valid v, y_valid v), l4)"
    "build_model env (X_train v) l4 = (Inr (model v), l5)"
    "fit env (model v) (X_train v) (y_train v) 128 5 1 l5 = (Inr (history v), l6)"
    "predict env (model v) (history v) (X_valid v) l6 = (Inr (preds v), l7)"
    "plot_encounter env (X_valid v) (preds v) l7 = (Inr (ix v), l8)"
    "rnn_eval env (y_valid v) (preds v) l8 =
       (Inr (label v, prediction v, rnn_roc v, rnn_auc v), l9)"
    "baselines env l9 =
       (Inr (index v, mortrep v, pim2_roc v, prism3_roc v, pim2_auc v, prism3_auc v), l10)"
    "plot_rocs env (prism3_roc v) (prism3_auc v) (pim2_roc v) (pim2_auc v)
       (rnn_roc v) (rnn_auc v) l10 = (Inr (), l)"
  using assms unfolding notebook_def
  apply -
  apply ((erule bnd_InrE | clarify | simp only: prod.case ret_Inr)+)
  apply simp
  done

subsection \<open>The whole notebook\<close>

lemma run_success:
  assumes "run env = (Inr v, l)"
  obtains n obs trace first_step last_step pim2 prism3 where
    "np_load_file env ''X_train_prepared.npy'' = Inr (X_train v)"
    "np_load_file env ''y_train_prepared.npy'' = Inr (y_train v)"
    "np_load_file env ''X_valid_prepared.npy'' = Inr (X_valid v)"
    "np_load_file env ''y_valid_prepared.npy'' = Inr (y_valid v)"
    "shape (X_train v) \<noteq> []" "model v = architecture (last (shape (X_train v)))"
    "keras_fit env (model v) (X_train v) (y_train v) 128 5 = Inr (history v)"
    "predict_result env (model v) (history v) (X_valid v) = Inr (preds v)"
    "shape_first (X_valid v) = Inr n" "0 < n" "ix v = int (randbits env) mod int n"
    "row_slice_all (X_valid v) (ix v) 1 50 = Inr obs"
    "row_slice (preds v) (ix v) 1 50 = Inr trace"
    "take_axis1 (y_valid v) 0 = Inr first_step" "label v = squeeze first_step"
    "take_axis1 (preds v) (- 1) = Inr last_step" "prediction v = squeeze last_step"
    "sk_roc_curve env (label v) (prediction v) = Inr (rnn_roc v)"
    "sk_auc env (fst (rnn_roc v)) (fst (snd (rnn_roc v))) = Inr (rnn_auc v)"
    "read_csv_file env ''/dli/task/csv/pim2prism3.csv'' = Inr (index v)"
    "index v ''mortalityResponse'' = Some (mortrep v)"
    "index v ''PIM2'' = Some pim2" "index v ''PRISM3'' = Some prism3"
    "sk_roc_curve env (series (mortrep v)) (series (neg pim2)) = Inr (pim2_roc v)"
    "sk_roc_curve env (series (mortrep v)) (series (neg prism3)) = Inr (prism3_roc v)"
    "sk_auc env (fst (pim2_roc v)) (fst (snd (pim2_roc v))) = Inr (pim2_auc v)"
    "sk_auc env (fst (prism3_roc v)) (fst (snd (prism3_roc v))) = Inr (prism3_auc v)"
    "l = map (\<lambda>c. (c, Returned))
       [NpLoad ''X_train_prepared.npy'', NpLoad ''y_train_prepared.npy'',
        NpLoad ''X_valid_prepared.npy'', NpLoad ''y_valid_prepared.npy'',
        Summary (model v),
        Fit (model v) (X_train v) (y_train v) 128 5 1,
        Predict (model v) (X_valid v),
        RandInt 0 (int n - 1), Subplots 2 1, Pcolor 0 (np_transpose obs), SetYlim 0 0 265,
        Ylabel ''mortality'' None, Xlabel ''time/observation'' None, AxPlot 1 trace,
        RocCurve (label v) (prediction v),
        Auc (fst (rnn_roc v)) (fst (snd (rnn_roc v))),
        ReadCsv ''/dli/task/csv/pim2prism3.csv'',
        RocCurve (series (mortrep v)) (series (neg pim2)),
        RocCurve (series (mortrep v)) (series (neg prism3)),
        Auc (fst (pim2_roc v)) (fst (snd (pim2_roc v))),
        Auc (fst (prism3_roc v)) (fst (snd (prism3_roc v))),
        Figure 7 5,
        PlotLine (fst (prism3_roc v)) (fst (snd (prism3_roc v)))
          (Percent ''prism3: %0.3f'' (prism3_auc v)) ''#4A86E8'' 4 0.8,
        PlotLine (fst (pim2_roc v)) (fst (snd (pim2_roc v)))
          (Percent ''pim2: %0.3f'' (pim2_auc v)) ''#FF9900'' 4 0.8,
        PlotLine (fst (rnn_roc v)) (fst (snd (rnn_roc v)))
          (Percent ''rnn: %0.3f'' (rnn_auc v)) ''#6AA84F'' 4 0.8,
        Legend ''lower right'' 20, Xlim (- 0.05) 1.05, Ylim (- 0.05) 1.05,
        Xticks [0, 0.25, 0.5, 0.75, 1.0] 14, Yticks [0, 0.25, 0.5, 0.75, 1.0] 14,
        Xlabel ''False Positive Rate'' (Some 18), Ylabel ''True Positive Rate'' (Some 18),
        Title ''Severity of Illness ROC Curves'' 24, Grid 0.25, TightLayout]"
proof -
  from assms have "notebook env [] = (Inr v, l)" by (simp add: run_def)
  then obtain l4 l5 l6 l7 l8 l9 l10 where
    ld: "load_data env [] = (Inr (X_train v, y_train v, X_valid v, y_valid v), l4)"
    and bm: "build_model env (X_train v) l4 = (Inr (model v), l5)"
    and ft: "fit env (model v) (X_train v) (y_train v) 128 5 1 l5 = (Inr (history v), l6)"
    and pr: "predict env (model v) (history v) (X_valid v) l6 = (Inr (preds v), l7)"
    and pe: "plot_encounter env (X_valid v) (preds v) l7 = (Inr (ix v), l8)"
    and re: "rnn_eval env (y_valid v) (preds v) l8 = (Inr (label v, prediction v, rnn_roc v, rnn_auc v), l9)"
    and bl: "baselines env l9 = (Inr (index v, mortrep v, pim2_roc v, prism3_roc v, pim2_auc v, prism3_auc v), l10)"
    and pl: "plot_rocs env (prism3_roc v) (prism3_auc v) (pim2_roc v) (pim2_auc v) (rnn_roc v) (rnn_auc v) l10 = (Inr (), l)"
    by (rule notebook_cells)
  from ld have f1: "np_load_file env ''X_train_prepared.npy'' = Inr (X_train v)"
        "np_load_file env ''y_train_prepared.npy'' = Inr (y_train v)"
        "np_load_file env ''X_valid_prepared.npy'' = Inr (X_valid v)"
        "np_load_file env ''y_valid_prepared.npy'' = Inr (y_valid v)"
    and l4: "l4 = [(NpLoad ''X_train_prepared.npy'', Returned), (NpLoad ''y_train_prepared.npy'', Returned),
        (NpLoad ''X_valid_prepared.npy'', Returned), (NpLoad ''y_valid_prepared.npy'', Returned)]"
    unfolding load_data_Inr by simp_all
  from bm have f2: "shape (X_train v) \<noteq> []" "model v = architecture (last (shape (X_train v)))"
    and l5: "l5 = l4 @ [(Summary (model v), Returned)]"
    unfolding build_model_Inr by simp_all
  from ft have f3: "keras_fit env (model v) (X_train v) (y_train v) 128 5 = Inr (history v)"
    and l6: "l6 = l5 @ [(Fit (model v) (X_train v) (y_train v) 128 5 1, Returned)]"
    unfolding fit_Inr by simp_all
  from pr have f4: "predict_result env (model v) (history v) (X_valid v) = Inr (preds v)"
    and l7: "l7 = l6 @ [(Predict (model v) (X_valid v), Returned)]"
    unfolding predict_Inr by simp_all
  from pe obtain n obs trace where f5: "shape_first (X_valid v) = Inr n" "0 < n"
        "ix v = int (randbits env) mod int n"
        "row_slice_all (X_valid v) (ix v) 1 50 = Inr obs" "row_slice (preds v) (ix v) 1 50 = Inr trace"
    and l8: "l8 = l7 @ [(RandInt 0 (int n - 1), Returned), (Subplots 2 1, Returned),
                  (Pcolor 0 (np_transpose obs), Returned), (SetYlim 0 0 265, Returned),
                  (Ylabel ''mortality'' None, Returned), (Xlabel ''time/observation'' None, Returned),
                  (AxPlot 1 trace, Returned)]"
    unfolding plot_encounter_Inr by (elim exE conjE) (rule that)
  from re obtain first_step last_step roc area where
        g6: "take_axis1 (y_valid v) 0 = Inr first_step" "take_axis1 (preds v) (- 1) = Inr last_step"
        "sk_roc_curve env (squeeze first_step) (squeeze last_step) = Inr roc"
        "sk_auc env (fst roc) (fst (snd roc)) = Inr area"
        "(label v, prediction v, rnn_roc v, rnn_auc v) = (squeeze first_step, squeeze last_step, roc, area)"
        "l9 = l8 @ [(RocCurve (squeeze first_step) (squeeze last_step), Returned),
               (Auc (fst roc) (fst (snd roc)), Returned)]"
    by (rule rnn_eval_InrE)
  from g6(5) have e6: "squeeze first_step = label v" "squeeze last_step = prediction v"
        "roc = rnn_roc v" "area = rnn_auc v"
    by simp_all
  note f6 = g6(1,2) e6(1,2) [symmetric] g6(3,4) [unfolded e6]
  note l9 = g6(6) [unfolded e6]
  from bl obtain df outcome pim2 prism3 roc2 roc3 area2 area3 where
    g7: "read_csv_file env ''/dli/task/csv/pim2prism3.csv'' = Inr df"
    "df ''mortalityResponse'' = Some outcome" "df ''PIM2'' = Some pim2"
    "df ''PRISM3'' = Some prism3"
    "sk_roc_curve env (series outcome) (series (neg pim2)) = Inr roc2"
    "sk_roc_curve env (series outcome) (series (neg prism3)) = Inr roc3"
    "sk_auc env (fst roc2) (fst (snd roc2)) = Inr area2"
    "sk_auc env (fst roc3) (fst (snd roc3)) = Inr area3"
    "(index v, mortrep v, pim2_roc v, prism3_roc v, pim2_auc v, prism3_auc v)
       = (df, outcome, roc2, roc3, area2, area3)"
    "l10 = l9 @ [(ReadCsv ''/dli/task/csv/pim2prism3.csv'', Returned),
               (RocCurve (series outcome) (series (neg pim2)), Returned),
               (RocCurve (series outcome) (series (neg prism3)), Returned),
               (Auc (fst roc2) (fst (snd roc2)), Returned),
               (Auc (fst roc3) (fst (snd roc3)), Returned)]"
    by (rule baselines_InrE)
  from g7(9) have e7: "df = index v" "outcome = mortrep v" "roc2 = pim2_roc v"
        "roc3 = prism3_roc v" "area2 = pim2_auc v" "area3 = prism3_auc v"
    by simp_all
  note f7 = g7(1-8) [unfolded e7]
  note l10 = g7(10) [unfolded e7]
  note l = plot_rocs_Inr [OF pl]
  have log: "l = map (\<lambda>c. (c, Returned))
       [NpLoad ''X_train_prepared.npy'', NpLoad ''y_train_prepared.npy'',
        NpLoad ''X_valid_prepared.npy'', NpLoad ''y_valid_prepared.npy'',
        Summary (model v),
        Fit (model v) (X_train v) (y_train v) 128 5 1,
        Predict (model v) (X_valid v),
        RandInt 0 (int n - 1), Subplots 2 1, Pcolor 0 (np_transpose obs), SetYlim 0 0 265,
        Ylabel ''mortality'' None, Xlabel ''time/observation'' None, AxPlot 1 trace,
        RocCurve (label v) (prediction v),
        Auc (fst (rnn_roc v)) (fst (snd (rnn_roc v))),
        ReadCsv ''/dli/task/csv/pim2prism3.csv'',
        RocCurve (series (mortrep v)) (series (neg pim2)),
        RocCurve (series (mortrep v)) (series (neg prism3)),
        Auc (fst (pim2_roc v)) (fst (snd (pim2_roc v))),
        Auc (fst (prism3_roc v)) (fst (snd (prism3_roc v))),
        Figure 7 5,
        PlotLine (fst (prism3_roc v)) (fst (snd (prism3_roc v)))
          (Percent ''prism3: %0.3f'' (prism3_auc v)) ''#4A86E8'' 4 0.8,
        PlotLine (fst (pim2_roc v)) (fst (snd (pim2_roc v)))
          (Percent ''pim2: %0.3f'' (pim2_auc v)) ''#FF9900'' 4 0.8,
        PlotLine (fst (rnn_roc v)) (fst (snd (rnn_roc v)))
          (Percent ''rnn: %0.3f'' (rnn_auc v)) ''#6AA84F'' 4 0.8,
        Legend ''lower right'' 20, Xlim (- 0.05) 1.05, Ylim (- 0.05) 1.05,
        Xticks [0, 0.25, 0.5, 0.75, 1.0] 14, Yticks [0, 0.25, 0.5, 0.75, 1.0] 14,
        Xlabel ''False Positive Rate'' (Some 18), Ylabel ''True Positive Rate'' (Some 18),
        Title ''Severity of Illness ROC Curves'' 24, Grid 0.25, TightLayout]"
    unfolding l l10 l9 l8 l7 l6 l5 l4 by (simp only: list.map append.simps)
  show thesis
    by (rule that [OF f1 f2 f3 f4 f5 f6(1,3,2,4,5,6) f7 log])
qed

section \<open>Every run follows the script\<close>

lemma last_raises_Nil [simp]: "last_raises r []"
  by (simp add: last_raises_def)

lemma follows_ret: "follows (ret a) []"
  by (simp add: follows_def ret_def kinds_def)

lemma follows_lift: "follows (lift r) []"
  by (simp add: follows_def lift_def kinds_def)

lemma follows_lib_call: "kind_of c = k \<Longrightarrow> follows (lib_call c r) [k]"
  unfolding follows_def lib_call_def
  by (auto simp: kinds_def last_raises_def split: sum.splits)

lemma last_raises_append:
  assumes "last_raises (Inr a) n1" "last_raises r n2"
  shows "last_raises r (n1 @ n2)"
  unfolding last_raises_def
proof (intro allI impI)
  fix i e
  assume i: "i < length (n1 @ n2)" and raised: "snd ((n1 @ n2) ! i) = Raised e"
  show "Suc i = length (n1 @ n2) \<and> r = Inl e"
  proof (cases "i < length n1")
    case True
    with raised have "snd (n1 ! i) = Raised e" by (simp add: nth_append)
    with assms(1) True have "Inr a = Inl e" unfolding last_raises_def by blast
    then show ?thesis by simp
  next
    case False
    with i have j: "i - length n1 < length n2" by simp
    from False raised have "snd (n2 ! (i - length n1)) = Raised e" by (simp add: nth_append)
    with assms(2) j have "Suc (i - length n1) = length n2 \<and> r = Inl e"
      unfolding last_raises_def by blast
    with False show ?thesis by auto
  qed
qed

lemma kinds_append: "kinds (a @ b) = kinds a @ kinds b"
  by (simp add: kinds_def)

lemma last_raises_Inl:
  "last_raises (Inl e) new \<longleftrightarrow>
     (\<forall>i<length new. \<forall>e'. snd (new ! i) = Raised e' \<longrightarrow> Suc i = length new \<and> e' = e)"
  by (auto simp: last_raises_def)

lemma followsD:
  "follows m ks \<Longrightarrow> m l = (r, l') \<Longrightarrow>
     \<exists>new. l' = l @ new \<and> kinds new = take (length new) ks \<and> length new \<le> length ks \<and>
       (\<forall>a. r = Inr a \<longrightarrow> length new = length ks) \<and> last_raises r new"
  by (simp add: follows_def)

lemma follows_bnd:
  assumes m: "follows m ks1" and f: "\<And>a. follows (f a) ks2"
  shows "follows (bnd m f) (ks1 @ ks2)"
  unfolding follows_def
proof (intro allI impI)
  fix l r l'
  assume run: "bnd m f l = (r, l')"
  obtain r1 l1 where m1: "m l = (r1, l1)" by (cases "m l")
  from followsD [OF m m1] obtain n1 where
    n1: "l1 = l @ n1 \<and> kinds n1 = take (length n1) ks1 \<and> length n1 \<le> length ks1 \<and>
         (\<forall>a. r1 = Inr a \<longrightarrow> length n1 = length ks1) \<and> last_raises r1 n1" ..
  show "\<exists>new. l' = l @ new \<and> kinds new = take (length new) (ks1 @ ks2) \<and>
          length new \<le> length (ks1 @ ks2) \<and>
          (\<forall>a. r = Inr a \<longrightarrow> length new = length (ks1 @ ks2)) \<and> last_raises r new"
  proof (cases r1)
    case (Inl e)
    with run m1 have "r = Inl e" "l' = l1" by (simp_all add: bnd_def)
    moreover from n1 have "take (length n1) (ks1 @ ks2) = take (length n1) ks1" by simp
    ultimately show ?thesis using n1 Inl by (intro exI [of _ n1]) (simp add: last_raises_Inl)
  next
    case (Inr a)
    with run m1 have fa: "f a l1 = (r, l')" by (simp add: bnd_def)
    from followsD [OF f fa] obtain n2 where
      n2: "l' = l1 @ n2 \<and> kinds n2 = take (length n2) ks2 \<and> length n2 \<le> length ks2 \<and>
           (\<forall>b. r = Inr b \<longrightarrow> length n2 = length ks2) \<and> last_raises r n2" ..
    from n1 Inr have len1: "length n1 = length ks1" by simp
    with n1 have k1: "kinds n1 = ks1" by simp
    have k: "kinds (n1 @ n2) = take (length (n1 @ n2)) (ks1 @ ks2)"
      using k1 n2 len1 by (simp add: kinds_append)
    have lr: "last_raises r (n1 @ n2)"
    proof (rule last_raises_append)
      show "last_raises (Inr a) n1" using n1 Inr by simp
      show "last_raises r n2" using n2 by simp
    qed
    have "l' = l @ (n1 @ n2)" using n1 n2 by simp
    moreover have "length (n1 @ n2) \<le> length (ks1 @ ks2)" using len1 n2 by simp
    moreover have "\<forall>a. r = Inr a \<longrightarrow> length (n1 @ n2) = length (ks1 @ ks2)"
      using len1 n2 by simp
    ultimately show ?thesis using k lr by blast
  qed
qed

lemma follows_call_bnd:
  "kind_of c = k \<Longrightarrow> (\<And>a. follows (f a) ks) \<Longrightarrow> follows (bnd (lib_call c r) f) (k # ks)"
  using follows_bnd [OF follows_lib_call, of c k f ks r] by simp

lemma follows_lift_bnd:
  "(\<And>a. follows (f a) ks) \<Longrightarrow> follows (bnd (lift r) f) ks"
  using follows_bnd [OF follows_lift, of f ks r] by simp

lemmas follows_intros = follows_call_bnd follows_lift_bnd follows_lib_call follows_ret

lemma follows_load_data:
  "follows (load_data env)
     [Load ''X_train_prepared.npy'', Load ''y_train_prepared.npy'',
      Load ''X_valid_prepared.npy'', Load ''y_valid_prepared.npy'']"
  unfolding load_data_def np_load_def
  by (intro follows_intros) simp_all

lemma follows_build_model: "follows (build_model env X) [Print]"
  unfolding build_model_def effect_def
  by (intro follows_intros) simp_all

lemma follows_fit: "follows (fit env m x y b e v) [Train b e v]"
  unfolding fit_def by (intro follows_intros) simp_all

lemma follows_predict: "follows (predict env m w x) [Infer]"
  unfolding predict_def by (intro follows_intros) simp_all

lemma follows_plot_encounter:
  "follows (plot_encounter env X p) [Random, New_figure, Draw, Draw, Draw, Draw, Draw]"
  unfolding plot_encounter_def effect_def randint_def
  by (intro follows_intros) simp_all

lemma follows_rnn_eval: "follows (rnn_eval env y p) [Roc, Area]"
  unfolding rnn_eval_def roc_curve_def auc_def Let_def
  by (intro follows_intros) simp_all

lemma follows_baselines:
  "follows (baselines env) [Csv ''/dli/task/csv/pim2prism3.csv'', Roc, Roc, Area, Area]"
  unfolding baselines_def roc_curve_def auc_def read_csv_def csv_path
  by (intro follows_intros) simp_all

lemma follows_plot_rocs:
  "follows (plot_rocs env r3 a3 r2 a2 r1 a1) [New_figure, Draw, Draw, Draw, Draw, Draw, Draw, Draw, Draw, Draw, Draw, Draw, Draw, Draw]"
  unfolding plot_rocs_def effect_def
  by (intro follows_intros) simp_all

lemma follows_prod:
  "(\<And>a b. follows (f a b) ks) \<Longrightarrow> follows (case p of (a, b) \<Rightarrow> f a b) ks"
  by (cases p) simp

lemma follows_notebook: "follows (notebook env) script"
  unfolding notebook_def script_def
  by (intro follows_bnd follows_prod follows_load_data follows_build_model follows_fit
        follows_predict follows_plot_encounter follows_rnn_eval follows_baselines) 
     (rule follows_bnd [where ?ks2.0 = "[]", simplified], rule follows_plot_rocs, rule follows_ret)

subsection \<open>Consequences for a run\<close>

lemma run_discipline:
  assumes "run env = (r, l)"
  shows "kinds l = take (length l) script" "length l \<le> length script"
    "r = Inr v \<Longrightarrow> length l = length script" "last_raises r l"
  using followsD [OF follows_notebook, of env "[]" r l] assms
  by (auto simp: run_def)

lemma length_filter_take: "length (filter Q (take n xs)) \<le> length (filter Q xs)"
proof -
  have "length (filter Q xs) = length (filter Q (take n xs)) + length (filter Q (drop n xs))"
    by (metis append_take_drop_id filter_append length_append)
  then show ?thesis by simp
qed

lemma filter_calls_kinds:
  assumes "\<And>c. P c = Q (kind_of c)"
  shows "length (filter P (map fst l)) = length (filter Q (kinds l))"
proof -
  have "filter Q (kinds l) = map kind_of (filter P (map fst l))"
    by (simp add: kinds_def filter_map comp_def assms)
  then show ?thesis by simp
qed

lemma count_calls:
  assumes "run env = (r, l)" and "\<And>c. P c = Q (kind_of c)"
  shows "length (filter P (map fst l)) \<le> length (filter Q script)"
  using run_discipline(1) [OF assms(1)] filter_calls_kinds [of P Q l, OF assms(2)]
    length_filter_take [of Q "length l" script]
  by simp

lemma kind_in_script:
  assumes "run env = (r, l)" and "c \<in> set (map fst l)"
  shows "kind_of c \<in> set script"
proof -
  from assms(2) have "kind_of c \<in> set (kinds l)" by (auto simp: kinds_def)
  with run_discipline(1) [OF assms(1)] show ?thesis by (metis in_set_takeD)
qed

lemma is_Fit_kind: "is_Fit c = is_Train (kind_of c)"
  by (cases c) simp_all

lemma is_NpLoad_kind: "is_NpLoad c = is_Load (kind_of c)"
  by (cases c) simp_all


lemma is_RocCurve_kind: "is_RocCurve c = (kind_of c = Roc)"
  by (cases c) simp_all

lemma is_Auc_kind: "is_Auc c = (kind_of c = Area)"
  by (cases c) simp_all

lemma kind_at:
  assumes "run env = (r, l)" and "i < length l"
  shows "kind_of (fst (l ! i)) = script ! i"
proof -
  from assms(2) have "kind_of (fst (l ! i)) = kinds l ! i" by (simp add: kinds_def)
  also have "\<dots> = take (length l) script ! i" using run_discipline(1) [OF assms(1)] by simp
  also have "\<dots> = script ! i" using assms(2) by simp
  finally show ?thesis .
qed

lemma script_after_loads: "4 \<le> i \<Longrightarrow> i < length script \<Longrightarrow> \<not> is_Load (script ! i)"
proof -
  assume i: "4 \<le> i" "i < length script"
  then have "script ! i = drop 4 script ! (i - 4)" by simp
  moreover from i have "i - 4 < length (drop 4 script)" by simp
  ultimately have "script ! i \<in> set (drop 4 script)" by (metis nth_mem)
  then show ?thesis by (auto simp: script_def)
qed


lemma demo_no_npy_log:
  "snd (run demo_env_no_npy) =
     [(NpLoad ''X_train_prepared.npy'', Returned), (NpLoad ''y_train_prepared.npy'', Returned),
      (NpLoad ''X_valid_prepared.npy'', Raised (FileNotFoundError ''X_valid_prepared.npy''))]"
  by (simp add: run_def notebook_def load_data_def np_load_def bnd_def lib_call_def
        demo_env_no_npy_def demo_env_def)

lemma demo_no_csv_log:
  "length (snd (run demo_env_no_csv)) = 17 \<and>
   snd (run demo_env_no_csv) ! 16 =
     (ReadCsv ''/dli/task/csv/pim2prism3.csv'',
      Raised (FileNotFoundError ''/dli/task/csv/pim2prism3.csv''))"
  unfolding run_def notebook_def load_data_def build_model_def fit_def predict_def
    plot_encounter_def rnn_eval_def baselines_def plot_rocs_def
    np_load_def effect_def randint_def roc_curve_def auc_def read_csv_def csv_path
  by (simp add: bnd_def lib_call_def ret_def lift_def demo_env_no_csv_def demo_env_def shape_last_def shape_first_def
       demo_X_train_def demo_y_train_def demo_X_valid_def demo_y_valid_def 
       architecture_def Model_def compile_def apply_layer_def lstm_kwargs_def
       row_slice_all_def row_slice_def py_index_def take_axis1_def squeeze_def column_def 
       demo_roc_def Let_def upt_rec)

lemma build_model_demo:
  "build_model demo_env demo_X_train [] = (Inr (architecture 1), [(Summary (architecture 1), Returned)])"
  by (simp add: build_model_def bnd_def lift_def effect_def lib_call_def ret_def shape_last_def
        demo_X_train_def demo_env_def)

lemma nth_concat_uniform:
  "\<forall>x\<in>set xss. length x = m \<Longrightarrow> i < length xss \<Longrightarrow> c < m \<Longrightarrow>
     concat xss ! (i * m + c) = xss ! i ! c"
proof (induction xss arbitrary: i)
  case Nil
  then show ?case by simp
next
  case (Cons xs xss)
  show ?case
  proof (cases i)
    case 0
    with Cons.prems show ?thesis by (simp add: nth_append)
  next
    case (Suc j)
    with Cons.prems have "concat xss ! (j * m + c) = xss ! j ! c"
      by (intro Cons.IH) simp_all
    moreover from Cons.prems have "length xs = m" by simp
    ultimately show ?thesis using Suc by (simp add: nth_append)
  qed
qed

lemma block_in_range:
  fixes i t k sz n :: nat
  assumes "i < n" "k < t"
  shows "(i * t + k) * sz + sz \<le> n * t * sz"
proof -
  from assms have "i * t + k + 1 \<le> i * t + t" by simp
  also have "\<dots> = Suc i * t" by simp
  also from assms(1) have "\<dots> \<le> n * t" by (intro mult_le_mono1) simp
  finally have "(i * t + k + 1) * sz \<le> n * t * sz" by (rule mult_le_mono1)
  then show ?thesis by (simp add: algebra_simps)
qed

lemma py_index_bound: "py_index t j = Inr k \<Longrightarrow> k < t"
  by (auto simp: py_index_def Let_def split: if_splits)

lemma py_index_first: "py_index t 0 = Inr k \<longleftrightarrow> 0 < t \<and> k = 0"
  by (auto simp: py_index_def Let_def)

lemma py_index_last: "py_index t (- 1) = Inr k \<longleftrightarrow> 0 < t \<and> k = t - 1"
  by (auto simp: py_index_def Let_def)

lemma take_axis1_Inr:
  assumes "take_axis1 a j = Inr b"
  obtains n t d rest k where "shape a = n # t # d # rest" "py_index t j = Inr k"
    "shape b = n # d # rest"
    "data b = concat (map (\<lambda>i. take (prod_list (d # rest))
                 (drop ((i * t + k) * prod_list (d # rest)) (data a))) [0..<n])"
  using assms
  by (auto simp: take_axis1_def Let_def split: list.splits sum.splits)

lemma take_axis1_entry:
  assumes b: "take_axis1 a j = Inr b" and wf: "wf_array a"
    and sh: "shape a = n # t # d # rest" and k: "py_index t j = Inr k"
    and i: "i < n" and c: "c < prod_list (d # rest)"
  shows "data b ! (i * prod_list (d # rest) + c) = data a ! ((i * t + k) * prod_list (d # rest) + c)"
proof -
  define sz where "sz = prod_list (d # rest)"
  define chunk where "chunk = (\<lambda>i. take sz (drop ((i * t + k) * sz) (data a)))"
  from wf sh have len: "length (data a) = n * t * sz"
    by (simp add: wf_array_def sz_def mult.assoc)
  from k have kt: "k < t" by (rule py_index_bound)
  have chunk_len: "length (chunk i') = sz" if "i' < n" for i'
    using block_in_range [OF that kt, of sz] len by (simp add: chunk_def)
  from b sh k have "data b = concat (map chunk [0..<n])"
    by (auto simp: take_axis1_def Let_def chunk_def sz_def)
  moreover have "concat (map chunk [0..<n]) ! (i * sz + c) = map chunk [0..<n] ! i ! c"
    using chunk_len i c by (intro nth_concat_uniform) (auto simp: sz_def)
  moreover have "map chunk [0..<n] ! i ! c = data a ! ((i * t + k) * sz + c)"
  proof -
    from c have csz: "c < sz" by (simp add: sz_def)
    with block_in_range [OF i kt, of sz] len
    have "(i * t + k) * sz + c < length (data a)" by simp
    with i csz show ?thesis by (simp add: chunk_def)
  qed
  ultimately show ?thesis by (simp add: sz_def)
qed













section \<open>The small environment\<close>

lemma demo_succeeds: "fst (run demo_env) = Inr demo_vars"
  unfolding run_def notebook_def load_data_def build_model_def fit_def predict_def
    plot_encounter_def rnn_eval_def baselines_def plot_rocs_def
    np_load_def effect_def randint_def roc_curve_def auc_def read_csv_def csv_path
  by (simp add: bnd_def lib_call_def ret_def lift_def demo_env_def shape_last_def shape_first_def
       demo_X_train_def demo_y_train_def demo_X_valid_def demo_y_valid_def demo_vars_def demo_preds_def
       architecture_def Model_def compile_def apply_layer_def lstm_kwargs_def
       row_slice_all_def row_slice_def py_index_def take_axis1_def squeeze_def column_def demo_csv_def
       demo_roc_def Let_def upt_rec)

lemma demo_run: "run demo_env = (Inr demo_vars, snd (run demo_env))"
  using demo_succeeds by (simp add: prod_eq_iff)

section \<open>The claims\<close>

text \<open>
  C5. Training is one call of \<open>model.fit\<close>, with \<open>batch_size=128\<close> and \<open>epochs=5\<close>
  whatever the data: in every run, also one that aborts, the log holds at most one
  \<open>Fit\<close> call and any \<open>Fit\<close> call in it has these two arguments; in a run that reaches
  its end it holds exactly one, on the arrays loaded from \<open>X_train_prepared.npy\<close> and
  \<open>y_train_prepared.npy\<close>, and the fitted state is what that one call returned. No loop
  of the notebook surrounds the call.
\<close>

theorem C5_single_fit:
  assumes "run env = (r, l)"
  shows "length (filter is_Fit (map fst l)) \<le> 1 \<and>
         (\<forall>m x y b e vb. Fit m x y b e vb \<in> set (map fst l) \<longrightarrow> b = 128 \<and> e = 5) \<and>
         (\<forall>v. r = Inr v \<longrightarrow>
            filter is_Fit (map fst l) = [Fit (model v) (X_train v) (y_train v) 128 5 1] \<and>
            keras_fit env (model v) (X_train v) (y_train v) 128 5 = Inr (history v) \<and>
            np_load_file env ''X_train_prepared.npy'' = Inr (X_train v) \<and>
            np_load_file env ''y_train_prepared.npy'' = Inr (y_train v))"
proof (intro conjI allI impI)
  have "length (filter is_Fit (map fst l)) \<le> length (filter is_Train script)"
    using assms by (rule count_calls) (rule is_Fit_kind)
  then show "length (filter is_Fit (map fst l)) \<le> 1" by (simp add: script_def)
next
  fix m x y b e vb
  assume "Fit m x y b e vb \<in> set (map fst l)"
  with assms have "kind_of (Fit m x y b e vb) \<in> set script" by (rule kind_in_script)
  then have "Train b e vb \<in> set script" by simp
  then show "b = 128" "e = 5" by (simp_all add: script_def)
next
  fix v assume "r = Inr v"
  with assms have ok: "run env = (Inr v, l)" by simp
  from ok show "filter is_Fit (map fst l) = [Fit (model v) (X_train v) (y_train v) 128 5 1]"
    by (rule run_success) simp
  from ok show "keras_fit env (model v) (X_train v) (y_train v) 128 5 = Inr (history v)"
    by (rule run_success)
  from ok show "np_load_file env ''X_train_prepared.npy'' = Inr (X_train v)"
    by (rule run_success)
  from ok show "np_load_file env ''y_train_prepared.npy'' = Inr (y_train v)"
    by (rule run_success)
qed

theorem C5_single_fit_witness:
  "filter is_Fit (map fst (snd (run demo_env))) = [Fit (architecture 1) demo_X_train demo_y_train 128 5 1] \<and>
   keras_fit demo_env (architecture 1) demo_X_train demo_y_train 128 5 = Inr ()"
  using C5_single_fit [OF demo_run] by (simp add: demo_vars_def)

text \<open>
  C4. The notebook loads four arrays, from the fixed names \<open>X_train_prepared.npy\<close>,
  \<open>y_train_prepared.npy\<close>, \<open>X_valid_prepared.npy\<close> and \<open>y_valid_prepared.npy\<close>, and
  nothing else: in every run the log holds at most four \<open>NpLoad\<close> calls, each of one of
  these names, and each among the first four calls; in a run that reaches its end the first
  four calls are these loads in this order, the fifth prints the model just constructed,
  no later call loads an array, and the four variables hold what the four files gave.
\<close>

theorem C4_four_loads:
  assumes "run env = (r, l)"
  shows "length (filter is_NpLoad (map fst l)) \<le> 4 \<and>
         (\<forall>name. NpLoad name \<in> set (map fst l) \<longrightarrow>
            name = ''X_train_prepared.npy'' \<or> name = ''y_train_prepared.npy'' \<or>
            name = ''X_valid_prepared.npy'' \<or> name = ''y_valid_prepared.npy'') \<and>
         (\<forall>i<length l. is_NpLoad (fst (l ! i)) \<longrightarrow> i < 4) \<and>
         (\<forall>v. r = Inr v \<longrightarrow>
            (\<exists>rest. map fst l =
               [NpLoad ''X_train_prepared.npy'', NpLoad ''y_train_prepared.npy'',
                NpLoad ''X_valid_prepared.npy'', NpLoad ''y_valid_prepared.npy'',
                Summary (model v)] @ rest \<and> filter is_NpLoad rest = []) \<and>
            np_load_file env ''X_train_prepared.npy'' = Inr (X_train v) \<and>
            np_load_file env ''y_train_prepared.npy'' = Inr (y_train v) \<and>
            np_load_file env ''X_valid_prepared.npy'' = Inr (X_valid v) \<and>
            np_load_file env ''y_valid_prepared.npy'' = Inr (y_valid v))"
proof (intro conjI allI impI)
  have "length (filter is_NpLoad (map fst l)) \<le> length (filter is_Load script)"
    using assms by (rule count_calls) (rule is_NpLoad_kind)
  then show "length (filter is_NpLoad (map fst l)) \<le> 4" by (simp add: script_def)
next
  fix name
  assume "NpLoad name \<in> set (map fst l)"
  with assms have "kind_of (NpLoad name) \<in> set script" by (rule kind_in_script)
  then show "name = ''X_train_prepared.npy'' \<or> name = ''y_train_prepared.npy'' \<or>
            name = ''X_valid_prepared.npy'' \<or> name = ''y_valid_prepared.npy''"
    by (simp add: script_def)
next
  fix i
  assume i: "i < length l" and ld: "is_NpLoad (fst (l ! i))"
  from ld have "is_Load (script ! i)"
    using kind_at [OF assms i] by (simp add: is_NpLoad_kind)
  moreover from i run_discipline(2) [OF assms] have "i < length script" by simp
  ultimately show "i < 4" using script_after_loads [of i] by (cases "i < 4") simp_all
next
  fix v assume "r = Inr v"
  with assms have ok: "run env = (Inr v, l)" by simp
  from ok show "\<exists>rest. map fst l =
               [NpLoad ''X_train_prepared.npy'', NpLoad ''y_train_prepared.npy'',
                NpLoad ''X_valid_prepared.npy'', NpLoad ''y_valid_prepared.npy'',
                Summary (model v)] @ rest \<and> filter is_NpLoad rest = []"
    by (rule run_success) simp
  from ok show "np_load_file env ''X_train_prepared.npy'' = Inr (X_train v)"
    by (rule run_success)
  from ok show "np_load_file env ''y_train_prepared.npy'' = Inr (y_train v)"
    by (rule run_success)
  from ok show "np_load_file env ''X_valid_prepared.npy'' = Inr (X_valid v)"
    by (rule run_success)
  from ok show "np_load_file env ''y_valid_prepared.npy'' = Inr (y_valid v)"
    by (rule run_success)
qed

theorem C4_four_loads_witness:
  "length (filter is_NpLoad (map fst (snd (run demo_env)))) \<le> 4 \<and>
   (\<exists>rest. map fst (snd (run demo_env)) =
      [NpLoad ''X_train_prepared.npy'', NpLoad ''y_train_prepared.npy'',
       NpLoad ''X_valid_prepared.npy'', NpLoad ''y_valid_prepared.npy'',
       Summary (architecture 1)] @ rest \<and> filter is_NpLoad rest = []) \<and>
   np_load_file demo_env ''X_valid_prepared.npy'' = Inr demo_X_valid"
  using C4_four_loads [OF demo_run] by (simp add: demo_vars_def)

text \<open>
  C2. Three ROC curves and three areas are computed, and no more: in every run the log
  holds at most three \<open>RocCurve\<close> and at most three \<open>Auc\<close> calls; in a run that reaches its
  end there are exactly three of each. The first curve is computed from the labels and the
  network's prediction on the validation inputs, the second and third from the
  \<open>mortalityResponse\<close> column of the CSV file and its negated \<open>PIM2\<close> and \<open>PRISM3\<close>
  columns; each area is computed from the first two components of its curve, and the six
  variables hold what the six calls returned.
\<close>

theorem C2_three_roc_auc_pairs:
  assumes "run env = (r, l)"
  shows "length (filter is_RocCurve (map fst l)) \<le> 3 \<and>
         length (filter is_Auc (map fst l)) \<le> 3 \<and>
         (\<forall>v. r = Inr v \<longrightarrow>
            (\<exists>pim2 prism3 last_step.
               predict_result env (model v) (history v) (X_valid v) = Inr (preds v) \<and>
               take_axis1 (preds v) (- 1) = Inr last_step \<and> prediction v = squeeze last_step \<and>
               read_csv_file env ''/dli/task/csv/pim2prism3.csv'' = Inr (index v) \<and>
               index v ''mortalityResponse'' = Some (mortrep v) \<and>
               index v ''PIM2'' = Some pim2 \<and> index v ''PRISM3'' = Some prism3 \<and>
               filter is_RocCurve (map fst l) =
                 [RocCurve (label v) (prediction v),
                  RocCurve (series (mortrep v)) (series (neg pim2)),
                  RocCurve (series (mortrep v)) (series (neg prism3))] \<and>
               sk_roc_curve env (label v) (prediction v) = Inr (rnn_roc v) \<and>
               sk_roc_curve env (series (mortrep v)) (series (neg pim2)) = Inr (pim2_roc v) \<and>
               sk_roc_curve env (series (mortrep v)) (series (neg prism3)) = Inr (prism3_roc v)) \<and>
            filter is_Auc (map fst l) =
              [Auc (fst (rnn_roc v)) (fst (snd (rnn_roc v))),
               Auc (fst (pim2_roc v)) (fst (snd (pim2_roc v))),
               Auc (fst (prism3_roc v)) (fst (snd (prism3_roc v)))] \<and>
            sk_auc env (fst (rnn_roc v)) (fst (snd (rnn_roc v))) = Inr (rnn_auc v) \<and>
            sk_auc env (fst (pim2_roc v)) (fst (snd (pim2_roc v))) = Inr (pim2_auc v) \<and>
            sk_auc env (fst (prism3_roc v)) (fst (snd (prism3_roc v))) = Inr (prism3_auc v))"
proof (intro conjI allI impI)
  have "length (filter is_RocCurve (map fst l)) \<le> length (filter (\<lambda>k. k = Roc) script)"
    using assms by (rule count_calls) (rule is_RocCurve_kind)
  then show "length (filter is_RocCurve (map fst l)) \<le> 3" by (simp add: script_def)
  have "length (filter is_Auc (map fst l)) \<le> length (filter (\<lambda>k. k = Area) script)"
    using assms by (rule count_calls) (rule is_Auc_kind)
  then show "length (filter is_Auc (map fst l)) \<le> 3" by (simp add: script_def)
next
  fix v assume "r = Inr v"
  with assms have ok: "run env = (Inr v, l)" by simp
  from ok show "\<exists>pim2 prism3 last_step.
               predict_result env (model v) (history v) (X_valid v) = Inr (preds v) \<and>
               take_axis1 (preds v) (- 1) = Inr last_step \<and> prediction v = squeeze last_step \<and>
               read_csv_file env ''/dli/task/csv/pim2prism3.csv'' = Inr (index v) \<and>
               index v ''mortalityResponse'' = Some (mortrep v) \<and>
               index v ''PIM2'' = Some pim2 \<and> index v ''PRISM3'' = Some prism3 \<and>
               filter is_RocCurve (map fst l) =
                 [RocCurve (label v) (prediction v),
                  RocCurve (series (mortrep v)) (series (neg pim2)),
                  RocCurve (series (mortrep v)) (series (neg prism3))] \<and>
               sk_roc_curve env (label v) (prediction v) = Inr (rnn_roc v) \<and>
               sk_roc_curve env (series (mortrep v)) (series (neg pim2)) = Inr (pim2_roc v) \<and>
               sk_roc_curve env (series (mortrep v)) (series (neg prism3)) = Inr (prism3_roc v)"
    by (rule run_success) (intro exI conjI, assumption+, simp, assumption+)
  from ok show "filter is_Auc (map fst l) =
              [Auc (fst (rnn_roc v)) (fst (snd (rnn_roc v))),
               Auc (fst (pim2_roc v)) (fst (snd (pim2_roc v))),
               Auc (fst (prism3_roc v)) (fst (snd (prism3_roc v)))]"
    by (rule run_success) simp
  from ok show "sk_auc env (fst (rnn_roc v)) (fst (snd (rnn_roc v))) = Inr (rnn_auc v)"
    by (rule run_success)
  from ok show "sk_auc env (fst (pim2_roc v)) (fst (snd (pim2_roc v))) = Inr (pim2_auc v)"
    by (rule run_success)
  from ok show "sk_auc env (fst (prism3_roc v)) (fst (snd (prism3_roc v))) = Inr (prism3_auc v)"
    by (rule run_success)
qed

theorem C2_three_roc_auc_pairs_witness:
  "filter is_Auc (map fst (snd (run demo_env))) =
     [Auc [0, 1] [0, 1], Auc [0, 1] [0, 1], Auc [0, 1] [0, 1]] \<and>
   length (filter is_RocCurve (map fst (snd (run demo_env)))) \<le> 3 \<and>
   sk_auc demo_env [0, 1] [0, 1] = Inr (1 / 2)"
  using C2_three_roc_auc_pairs [OF demo_run] by (simp add: demo_vars_def demo_roc_def)

text \<open>
  C8. No step handles an exception or tries again: in every run a library call that raised
  is the last call of the log, and its exception is the outcome of the run. So a run that
  reaches its end has seen no call raise, and a missing \<open>.npy\<close> or CSV file ends the run
  with the loader's exception.
\<close>

theorem C8_exceptions_abort:
  assumes "run env = (r, l)"
  shows "(\<forall>i<length l. \<forall>e. snd (l ! i) = Raised e \<longrightarrow> Suc i = length l \<and> r = Inl e) \<and>
         (\<forall>c e. (c, Raised e) \<in> set l \<longrightarrow> r = Inl e \<and> last l = (c, Raised e)) \<and>
         (\<forall>v. r = Inr v \<longrightarrow> (\<forall>x\<in>set l. snd x = Returned))"
proof -
  have a: "\<forall>i<length l. \<forall>e. snd (l ! i) = Raised e \<longrightarrow> Suc i = length l \<and> r = Inl e"
    using run_discipline(4) [OF assms] by (simp add: last_raises_def)
  have b: "r = Inl e \<and> last l = (c, Raised e)" if "(c, Raised e) \<in> set l" for c e
  proof -
    from that obtain i where i: "i < length l" "l ! i = (c, Raised e)"
      by (auto simp: in_set_conv_nth)
    with a have "Suc i = length l" "r = Inl e" by auto
    moreover from this i have "last l = l ! i" by (metis diff_Suc_1 last_conv_nth length_0_conv nat.distinct(1))
    ultimately show ?thesis using i by simp
  qed
  have c: "\<forall>x\<in>set l. snd x = Returned" if "r = Inr v" for v
  proof
    fix x assume "x \<in> set l"
    then obtain i where i: "i < length l" "l ! i = x" by (auto simp: in_set_conv_nth)
    show "snd x = Returned"
    proof (cases "snd x")
      case Returned
      then show ?thesis .
    next
      case (Raised e)
      with a i have "r = Inl e" by auto
      with that show ?thesis by simp
    qed
  qed
  from a b c show ?thesis by blast
qed

theorem C8_exceptions_abort_witness:
  "fst (run demo_env_no_npy) = Inl (FileNotFoundError ''X_valid_prepared.npy'') \<and>
   length (snd (run demo_env_no_npy)) = 3 \<and>
   fst (run demo_env_no_csv) = Inl (FileNotFoundError ''/dli/task/csv/pim2prism3.csv'')"
proof -
  have "run demo_env_no_npy = (fst (run demo_env_no_npy), snd (run demo_env_no_npy))" by simp
  from C8_exceptions_abort [OF this]
  have npy: "fst (run demo_env_no_npy) = Inl (FileNotFoundError ''X_valid_prepared.npy'')"
    by (simp add: demo_no_npy_log)
  have "run demo_env_no_csv = (fst (run demo_env_no_csv), snd (run demo_env_no_csv))" by simp
  from C8_exceptions_abort [OF this]
  have "\<forall>i<length (snd (run demo_env_no_csv)). \<forall>e.
          snd (snd (run demo_env_no_csv) ! i) = Raised e \<longrightarrow> fst (run demo_env_no_csv) = Inl e"
    by blast
  from this [rule_format, of 16 "FileNotFoundError ''/dli/task/csv/pim2prism3.csv''"]
  have csv: "fst (run demo_env_no_csv) = Inl (FileNotFoundError ''/dli/task/csv/pim2prism3.csv'')"
    by (simp add: demo_no_csv_log)
  from npy csv show ?thesis by (simp add: demo_no_npy_log)
qed

text \<open>
  C3. Whenever cell 9 returns a model, its layers are the input placeholder sized by
  \<open>X_train.shape[-1]\<close>, the mask, one LSTM of 128 units that returns sequences, and one
  time-distributed dense layer of width 1 with sigmoid activation; the two layers that carry
  weights are the LSTM followed by the dense layer. Any other array with the same last
  dimension, in any environment, gives the same model, and the model of a run that
  reaches its end is the one cell 9 returned on the loaded \<open>X_train\<close>.
\<close>

theorem C3_fixed_architecture:
  assumes "build_model env X l = (Inr m, l')"
  shows "layers m =
           [Input [None, Some (last (shape X))] ''input'', Masking 0 ''input_masked'',
            LSTM 128 lstm_kwargs ''lstm1'', TimeDistributed (Dense 1 ''sigmoid'') ''output''] \<and>
         filter has_weights (layers m) =
           [LSTM 128 lstm_kwargs ''lstm1'', TimeDistributed (Dense 1 ''sigmoid'') ''output''] \<and>
         return_sequences lstm_kwargs \<and>
         (\<forall>env' X' k m' k'.
            build_model env' X' k = (Inr m', k') \<and> last (shape X') = last (shape X) \<longrightarrow> m' = m) \<and>
         (\<forall>v k. run env = (Inr v, k) \<longrightarrow>
            (\<exists>j j'. build_model env (X_train v) j = (Inr (model v), j')))"
proof (intro conjI allI impI)
  from assms have m: "m = architecture (last (shape X))" by (simp add: build_model_Inr)
  then show "layers m =
           [Input [None, Some (last (shape X))] ''input'', Masking 0 ''input_masked'',
            LSTM 128 lstm_kwargs ''lstm1'', TimeDistributed (Dense 1 ''sigmoid'') ''output'']"
    by (simp add: architecture_def Model_def compile_def apply_layer_def)
  then show "filter has_weights (layers m) =
           [LSTM 128 lstm_kwargs ''lstm1'', TimeDistributed (Dense 1 ''sigmoid'') ''output'']"
    by simp
  show "return_sequences lstm_kwargs" by (simp add: lstm_kwargs_def)
  fix env' :: "'b env" and X' k m' k'
  assume "build_model env' X' k = (Inr m', k') \<and> last (shape X') = last (shape X)"
  with m show "m' = m" by (simp add: build_model_Inr)
next
  fix v k
  assume "run env = (Inr v, k)"
  then have "notebook env [] = (Inr v, k)" by (simp add: run_def)
  then show "\<exists>j j'. build_model env (X_train v) j = (Inr (model v), j')"
    by (rule notebook_cells) blast
qed

theorem C3_fixed_architecture_witness:
  "layers (architecture 1) =
     [Input [None, Some 1] ''input'', Masking 0 ''input_masked'',
      LSTM 128 lstm_kwargs ''lstm1'', TimeDistributed (Dense 1 ''sigmoid'') ''output''] \<and>
   filter has_weights (layers (architecture 1)) =
     [LSTM 128 lstm_kwargs ''lstm1'', TimeDistributed (Dense 1 ''sigmoid'') ''output'']"
  using C3_fixed_architecture [OF build_model_demo, THEN conjunct1]
    C3_fixed_architecture [OF build_model_demo, THEN conjunct2, THEN conjunct1]
  by (simp add: demo_X_train_def)





text \<open>
  C9. In a run that reaches its end, the label handed to \<open>roc_curve\<close> for encounter \<open>i\<close> is
  \<open>y_valid[i, 0, :]\<close> and the score handed to it is \<open>preds[i, -1, :]\<close> (the entry
  \<open>a[i, j, c]\<close> of an array of shape \<open>(m, s, ...)\<close> with \<open>z\<close> entries per timestep sits
  at flat position \<open>(i * s + j) * z + c\<close>), both squeezed; both time axes are then
  non-empty. They have to be: on a \<open>y_valid\<close> or a \<open>preds\<close> whose time axis is empty,
  cell 22 raises \<open>IndexError\<close>.
\<close>

theorem C9_first_label_last_prediction:
  assumes "run env = (Inr v, l)"
  shows "\<exists>m s d ds n t e es.
           shape (y_valid v) = m # s # d # ds \<and> 0 < s \<and>
           shape (preds v) = n # t # e # es \<and> 0 < t \<and>
           shape (label v) = filter (\<lambda>k. k \<noteq> 1) (m # d # ds) \<and>
           shape (prediction v) = filter (\<lambda>k. k \<noteq> 1) (n # e # es) \<and>
           RocCurve (label v) (prediction v) \<in> set (map fst l) \<and>
           sk_roc_curve env (label v) (prediction v) = Inr (rnn_roc v) \<and>
           (wf_array (y_valid v) \<longrightarrow>
              (\<forall>i<m. \<forall>c<prod_list (d # ds).
                 data (label v) ! (i * prod_list (d # ds) + c) =
                 data (y_valid v) ! ((i * s + 0) * prod_list (d # ds) + c))) \<and>
           (wf_array (preds v) \<longrightarrow>
              (\<forall>i<n. \<forall>c<prod_list (e # es).
                 data (prediction v) ! (i * prod_list (e # es) + c) =
                 data (preds v) ! ((i * t + (t - 1)) * prod_list (e # es) + c))) \<and>
           (\<forall>y p k a b c. shape y = a # 0 # b # c \<longrightarrow>
              fst (rnn_eval env y p k) = Inl IndexError) \<and>
           (\<forall>p k a b c. shape p = a # 0 # b # c \<longrightarrow>
              fst (rnn_eval env (y_valid v) p k) = Inl IndexError)"
proof -
  from assms obtain first_step last_step where
    f: "take_axis1 (y_valid v) 0 = Inr first_step" "label v = squeeze first_step"
      "take_axis1 (preds v) (- 1) = Inr last_step" "prediction v = squeeze last_step"
      "sk_roc_curve env (label v) (prediction v) = Inr (rnn_roc v)"
    and mem: "RocCurve (label v) (prediction v) \<in> set (map fst l)"
    by (rule run_success) simp
  from f(1) obtain m s d ds k where
    y: "shape (y_valid v) = m # s # d # ds" "py_index s 0 = Inr k"
      "shape first_step = m # d # ds"
    by (rule take_axis1_Inr)
  then have s: "0 < s" "k = 0" by (simp_all add: py_index_first)
  from f(3) obtain n t e es k' where
    p: "shape (preds v) = n # t # e # es" "py_index t (- 1) = Inr k'"
      "shape last_step = n # e # es"
    by (rule take_axis1_Inr)
  then have t: "0 < t" "k' = t - 1" by (simp_all add: py_index_last)
  have lab: "data (label v) ! (i * prod_list (d # ds) + c) =
        data (y_valid v) ! ((i * s + 0) * prod_list (d # ds) + c)"
    if "wf_array (y_valid v)" "i < m" "c < prod_list (d # ds)" for i c
    using take_axis1_entry [OF f(1) that(1) y(1,2) that(2,3)] s f(2) by (simp add: squeeze_def)
  have sco: "data (prediction v) ! (i * prod_list (e # es) + c) =
        data (preds v) ! ((i * t + (t - 1)) * prod_list (e # es) + c)"
    if "wf_array (preds v)" "i < n" "c < prod_list (e # es)" for i c
    using take_axis1_entry [OF f(3) that(1) p(1,2) that(2,3)] t f(4) by (simp add: squeeze_def)
  have shl: "shape (label v) = filter (\<lambda>k. k \<noteq> 1) (m # d # ds)"
    using f(2) y(3) by (simp add: squeeze_def)
  have shp: "shape (prediction v) = filter (\<lambda>k. k \<noteq> 1) (n # e # es)"
    using f(4) p(3) by (simp add: squeeze_def)
  have empty_y: "fst (rnn_eval env y' p' k') = Inl IndexError" if "shape y' = a # 0 # b # c"
    for y' :: ndarray and p' k' a b c
    using that by (simp add: rnn_eval_def bnd_def lift_def take_axis1_def py_index_def)
  have empty_p: "fst (rnn_eval env (y_valid v) p' k') = Inl IndexError" if "shape p' = a # 0 # b # c"
    for p' :: ndarray and k' a b c
    using that f(1) by (simp add: rnn_eval_def bnd_def lift_def take_axis1_def py_index_def)
  show ?thesis
  proof (intro exI conjI allI impI)
    show "shape (y_valid v) = m # s # d # ds" by (rule y(1))
    show "0 < s" by (rule s(1))
    show "shape (preds v) = n # t # e # es" by (rule p(1))
    show "0 < t" by (rule t(1))
    show "shape (label v) = filter (\<lambda>k. k \<noteq> 1) (m # d # ds)" by (rule shl)
    show "shape (prediction v) = filter (\<lambda>k. k \<noteq> 1) (n # e # es)" by (rule shp)
    show "RocCurve (label v) (prediction v) \<in> set (map fst l)" by (rule mem)
    show "sk_roc_curve env (label v) (prediction v) = Inr (rnn_roc v)" by (rule f(5))
    show "data (label v) ! (i * prod_list (d # ds) + c) =
        data (y_valid v) ! ((i * s + 0) * prod_list (d # ds) + c)"
      if "wf_array (y_valid v)" "i < m" "c < prod_list (d # ds)" for i c
      using that by (rule lab)
    show "data (prediction v) ! (i * prod_list (e # es) + c) =
        data (preds v) ! ((i * t + (t - 1)) * prod_list (e # es) + c)"
      if "wf_array (preds v)" "i < n" "c < prod_list (e # es)" for i c
      using that by (rule sco)
    show "fst (rnn_eval env y' p' k') = Inl IndexError" if "shape y' = a # 0 # b # c"
      for y' :: ndarray and p' k' a b c
      using that by (rule empty_y)
    show "fst (rnn_eval env (y_valid v) p' k') = Inl IndexError" if "shape p' = a # 0 # b # c"
      for p' :: ndarray and k' a b c
      using that by (rule empty_p)
  qed
qed

theorem C9_first_label_last_prediction_witness:
  "wf_array demo_y_valid \<and> wf_array demo_preds \<and>
   data (label demo_vars) ! 1 = data demo_y_valid ! 3 \<and> data demo_y_valid ! 3 = 0 \<and>
   data (prediction demo_vars) ! 1 = data demo_preds ! 5 \<and> data demo_preds ! 5 = 5 / 8 \<and>
   RocCurve (label demo_vars) (prediction demo_vars) \<in> set (map fst (snd (run demo_env)))"
proof -
  from C9_first_label_last_prediction [OF demo_run] obtain m s d ds n t e es where
    h: "shape (y_valid demo_vars) = m # s # d # ds"
      "shape (preds demo_vars) = n # t # e # es"
      "RocCurve (label demo_vars) (prediction demo_vars) \<in> set (map fst (snd (run demo_env)))"
      "wf_array (y_valid demo_vars) \<longrightarrow>
         (\<forall>i<m. \<forall>c<prod_list (d # ds).
            data (label demo_vars) ! (i * prod_list (d # ds) + c) =
            data (y_valid demo_vars) ! ((i * s + 0) * prod_list (d # ds) + c))"
      "wf_array (preds demo_vars) \<longrightarrow>
         (\<forall>i<n. \<forall>c<prod_list (e # es).
            data (prediction demo_vars) ! (i * prod_list (e # es) + c) =
            data (preds demo_vars) ! ((i * t + (t - 1)) * prod_list (e # es) + c))"
    by (elim exE conjE) (rule that)
  from h(1) have y: "m = 2" "s = 3" "d = 1" "ds = []"
    by (simp_all add: demo_vars_def demo_y_valid_def)
  from h(2) have p: "n = 2" "t = 3" "e = 1" "es = []"
    by (simp_all add: demo_vars_def demo_preds_def)
  have wf: "wf_array demo_y_valid" "wf_array demo_preds"
    by (simp_all add: wf_array_def demo_y_valid_def demo_preds_def)
  then have "wf_array (y_valid demo_vars)" "wf_array (preds demo_vars)"
    by (simp_all add: demo_vars_def)
  with h(4,5) have
    "\<forall>i<m. \<forall>c<prod_list (d # ds).
            data (label demo_vars) ! (i * prod_list (d # ds) + c) =
            data (y_valid demo_vars) ! ((i * s + 0) * prod_list (d # ds) + c)"
    "\<forall>i<n. \<forall>c<prod_list (e # es).
            data (prediction demo_vars) ! (i * prod_list (e # es) + c) =
            data (preds demo_vars) ! ((i * t + (t - 1)) * prod_list (e # es) + c)"
    by blast+
  from this(1) [rule_format, of 1 0] this(2) [rule_format, of 1 0] y p
  have a: "data (label demo_vars) ! 1 = data demo_y_valid ! 3"
    and b: "data (prediction demo_vars) ! 1 = data demo_preds ! 5"
    by (simp_all add: demo_vars_def)
  from wf a b h(3) show ?thesis by (simp add: demo_y_valid_def demo_preds_def)
qed




end
